theory Spec2Isabelle
  imports Complex_Main
begin

section \<open>The CRTK client utilities (crtk/utils.py)\<close>

text \<open>
  The class \<open>utils\<close> populates a Python object with blocking accessors over ROS
  topics.  Every subscription callback stores the message it receives and sets a
  \<open>threading.Event\<close>; the accessors clear and wait on these events.  The embedding
  below keeps the object, its ROS node, the clock and the subscription traffic in
  one record that every method takes and returns.  A method that can raise returns
  \<open>error + value\<close>.
\<close>

subsection \<open>Messages\<close>

text \<open>
  Instants are counted in nanoseconds, as \<open>rclpy.time.Time\<close> does; the ages and
  timeouts callers pass are seconds (Python floats, taken here as reals).
\<close>

type_synonym time = int

record time_msg =
  sec :: int
  nanosec :: nat

definition from_msg :: "time_msg \<Rightarrow> time" where
  "from_msg st = sec st * 1000000000 + int (nanosec st)"

definition seconds :: "int \<Rightarrow> real" where
  "seconds ns = real_of_int ns / 1000000000"

definition nanos :: "real \<Rightarrow> int" where
  "nanos d = \<lceil>d * 1000000000\<rceil>"

definition StampToSeconds :: "time_msg \<Rightarrow> real" where
  "StampToSeconds st = real_of_int (sec st) * 1.0 + real (nanosec st) / 1000000000"

text \<open>Every stamped message carries \<open>header.stamp\<close>; the other header fields are not read.\<close>

record stamped =
  header_stamp :: time_msg

record joint_state = stamped +
  position :: "real list"
  velocity :: "real list"
  effort :: "real list"

datatype point = Point real real real
datatype quaternion_msg = QuaternionMsg real real real real
datatype pose = Pose point quaternion_msg
datatype vector3 = Vector3 real real real
datatype twist = Twist vector3 vector3
datatype wrench = Wrench vector3 vector3

record pose_stamped = stamped +
  pose_of :: pose

record twist_stamped = stamped +
  twist_of :: twist

record wrench_stamped = stamped +
  wrench_of :: wrench

record operating_state_msg = stamped +
  state :: string
  msg_is_homed :: bool
  msg_is_busy :: bool

text \<open>\<open>std_msgs/Float64MultiArray\<close>: the sizes of \<open>layout.dim\<close> and the flat data.\<close>

record float64_multi_array =
  layout_dim :: "nat list"
  array_data :: "real list"

text \<open>The messages as their constructors leave them (all fields zero or empty).\<close>

definition Time0 :: time_msg where
  "Time0 = \<lparr>sec = 0, nanosec = 0\<rparr>"

definition JointState :: joint_state where
  "JointState = \<lparr>header_stamp = Time0, position = [], velocity = [], effort = []\<rparr>"

definition PoseStamped :: pose_stamped where
  "PoseStamped = \<lparr>header_stamp = Time0, pose_of = Pose (Point 0 0 0) (QuaternionMsg 0 0 0 1)\<rparr>"

definition TwistStamped :: twist_stamped where
  "TwistStamped = \<lparr>header_stamp = Time0, twist_of = Twist (Vector3 0 0 0) (Vector3 0 0 0)\<rparr>"

definition WrenchStamped :: wrench_stamped where
  "WrenchStamped = \<lparr>header_stamp = Time0, wrench_of = Wrench (Vector3 0 0 0) (Vector3 0 0 0)\<rparr>"

definition OperatingState :: operating_state_msg where
  "OperatingState = \<lparr>header_stamp = Time0, state = [], msg_is_homed = False, msg_is_busy = False\<rparr>"

definition Float64MultiArray :: float64_multi_array where
  "Float64MultiArray = \<lparr>layout_dim = [], array_data = []\<rparr>"

subsection \<open>Values handed to the caller\<close>

datatype rotation = Quaternion real real real real
datatype vector = Vector real real real
datatype frame = Frame rotation vector

datatype pyval =
    Str string
  | Bool bool
  | Float real
  | Array "real list"
  | Matrix nat nat "real list"
  | KDLFrame frame
  | PyList "pyval list"

datatype error =
    RuntimeWarning string
  | AttributeError
  | IndexError
  | ValueError

text \<open>
  The accessors raise \<open>RuntimeWarning('unable to get ...')\<close> when no valid data is
  available and the \<open>add_*\<close> methods raise \<open>RuntimeWarning('... already exists')\<close>;
  these are the failures the specification calls DataUnavailable and
  DuplicateCapability.
\<close>

fun DataUnavailable :: "error \<Rightarrow> bool" where
  "DataUnavailable (RuntimeWarning m) = (take 14 m = ''unable to get '')"
| "DataUnavailable _ = False"

fun DuplicateCapability :: "error \<Rightarrow> bool" where
  "DuplicateCapability (RuntimeWarning m) = (drop (length m - 15) m = '' already exists'')"
| "DuplicateCapability _ = False"

fun FrameFromPoseMsg :: "pose \<Rightarrow> frame" where
  "FrameFromPoseMsg (Pose (Point px py pz) (QuaternionMsg x y z w)) =
     Frame (Quaternion x y z w) (Vector px py pz)"

fun ArrayFromTwistMsg :: "twist \<Rightarrow> pyval" where
  "ArrayFromTwistMsg (Twist (Vector3 lx ly lz) (Vector3 ax ay az)) = Array [lx, ly, lz, ax, ay, az]"

fun ArrayFromWrenchMsg :: "wrench \<Rightarrow> pyval" where
  "ArrayFromWrenchMsg (Wrench (Vector3 fx fy fz) (Vector3 tx ty tz)) = Array [fx, fy, fz, tx, ty, tz]"

subsection \<open>The object, its node and the traffic\<close>

datatype channel =
    OperatingStateEvent
  | SetpointJsEvent
  | SetpointCpEvent
  | MeasuredJsEvent
  | MeasuredCpEvent
  | MeasuredCvEvent
  | MeasuredCfEvent
  | JacobianEvent

datatype handle = Subscription nat string | Publisher nat string

datatype ros_msg = StringStamped string | JointStateOut "real list"

datatype objref = Class_instance | Other_instance

text \<open>
  What the transport does while the caller runs: it invokes a subscription callback
  with a message, or shuts the context down.
\<close>

datatype occurrence =
    Operating_state_cb operating_state_msg
  | Setpoint_js_cb joint_state
  | Setpoint_cp_cb pose_stamped
  | Measured_js_cb joint_state
  | Measured_cp_cb pose_stamped
  | Measured_cv_cb twist_stamped
  | Measured_cf_cb wrench_stamped
  | Jacobian_cb float64_multi_array
  | Shutdown

text \<open>
  The fields up to \<open>move_jp_publisher\<close> are the attributes of the \<open>utils\<close> object
  (an attribute that an \<open>add_*\<close> method creates is \<open>None\<close> until then; an event is
  present in \<open>events\<close> once created, with its flag).  \<open>class_instance_dict\<close> holds the
  names of the attributes of the populated object.  The \<open>node_*\<close> fields, \<open>published\<close>,
  \<open>clock\<close> and \<open>ok\<close> are the ROS node, what was published through it, its clock
  and \<open>rclpy.ok()\<close>.  \<open>pending\<close> is the traffic still to come, each occurrence
  with its instant, in the order in which the transport delivers it.  \<open>latency\<close> is
  the time the calling thread takes from reading the elapsed time of one blocking
  attempt to starting the next one (zero for an ideally fast caller).
\<close>

record utils =
  class_instance_dict :: "string set"
  operating_state_instance :: "objref option"
  expected_interval :: real
  subscribers :: "handle list"
  publishers :: "handle list"
  attributes :: "string list"
  events :: "channel \<rightharpoonup> bool"
  operating_state_data :: "operating_state_msg option"
  setpoint_js_data :: "joint_state option"
  setpoint_cp_data :: "pose_stamped option"
  measured_js_data :: "joint_state option"
  measured_cp_data :: "pose_stamped option"
  measured_cv_data :: "twist_stamped option"
  measured_cf_data :: "wrench_stamped option"
  jacobian_data :: "float64_multi_array option"
  state_command_publisher :: "handle option"
  move_jp_publisher :: "handle option"
  node_name :: string
  node_namespace :: string
  node_subscriptions :: "handle set"
  node_publishers :: "handle set"
  next_handle :: nat
  published :: "(handle \<times> ros_msg) list"
  clock :: time
  ok :: bool
  pending :: "(time \<times> occurrence) list"
  latency :: time

subsection \<open>Events and callbacks\<close>

definition now :: "utils \<Rightarrow> time" where
  "now u = clock u"

definition clear :: "channel \<Rightarrow> utils \<Rightarrow> utils" where
  "clear ev u = u\<lparr>events := (events u)(ev \<mapsto> False)\<rparr>"

definition set_event :: "channel \<Rightarrow> utils \<Rightarrow> utils" where
  "set_event ev u = (if events u ev = None then u else u\<lparr>events := (events u)(ev \<mapsto> True)\<rparr>)"

definition is_set :: "channel \<Rightarrow> utils \<Rightarrow> bool" where
  "is_set ev u = (events u ev = Some True)"

definition ros_shutdown :: "utils \<Rightarrow> utils" where
  "ros_shutdown u =
     (if events u OperatingStateEvent \<noteq> None then set_event OperatingStateEvent u else u)"

definition operating_state_cb :: "operating_state_msg \<Rightarrow> utils \<Rightarrow> utils" where
  "operating_state_cb msg u = set_event OperatingStateEvent (u\<lparr>operating_state_data := Some msg\<rparr>)"

definition setpoint_js_cb :: "joint_state \<Rightarrow> utils \<Rightarrow> utils" where
  "setpoint_js_cb msg u = set_event SetpointJsEvent (u\<lparr>setpoint_js_data := Some msg\<rparr>)"

definition setpoint_cp_cb :: "pose_stamped \<Rightarrow> utils \<Rightarrow> utils" where
  "setpoint_cp_cb msg u = set_event SetpointCpEvent (u\<lparr>setpoint_cp_data := Some msg\<rparr>)"

definition measured_js_cb :: "joint_state \<Rightarrow> utils \<Rightarrow> utils" where
  "measured_js_cb msg u = set_event MeasuredJsEvent (u\<lparr>measured_js_data := Some msg\<rparr>)"

definition measured_cp_cb :: "pose_stamped \<Rightarrow> utils \<Rightarrow> utils" where
  "measured_cp_cb msg u = set_event MeasuredCpEvent (u\<lparr>measured_cp_data := Some msg\<rparr>)"

definition measured_cv_cb :: "twist_stamped \<Rightarrow> utils \<Rightarrow> utils" where
  "measured_cv_cb msg u = set_event MeasuredCvEvent (u\<lparr>measured_cv_data := Some msg\<rparr>)"

definition measured_cf_cb :: "wrench_stamped \<Rightarrow> utils \<Rightarrow> utils" where
  "measured_cf_cb msg u = set_event MeasuredCfEvent (u\<lparr>measured_cf_data := Some msg\<rparr>)"

definition jacobian_cb :: "float64_multi_array \<Rightarrow> utils \<Rightarrow> utils" where
  "jacobian_cb msg u = set_event JacobianEvent (u\<lparr>jacobian_data := Some msg\<rparr>)"

text \<open>
  One occurrence of the traffic.  A context shutdown makes \<open>rclpy.ok()\<close> false and
  then runs the hook that \<open>__init__\<close> registered with \<open>on_shutdown\<close>.
\<close>

fun occur :: "occurrence \<Rightarrow> utils \<Rightarrow> utils" where
  "occur (Operating_state_cb msg) u = operating_state_cb msg u"
| "occur (Setpoint_js_cb msg) u = setpoint_js_cb msg u"
| "occur (Setpoint_cp_cb msg) u = setpoint_cp_cb msg u"
| "occur (Measured_js_cb msg) u = measured_js_cb msg u"
| "occur (Measured_cp_cb msg) u = measured_cp_cb msg u"
| "occur (Measured_cv_cb msg) u = measured_cv_cb msg u"
| "occur (Measured_cf_cb msg) u = measured_cf_cb msg u"
| "occur (Jacobian_cb msg) u = jacobian_cb msg u"
| "occur Shutdown u = ros_shutdown (u\<lparr>ok := False\<rparr>)"

text \<open>The event whose flag the callback of an occurrence sets.\<close>

fun notifies :: "occurrence \<Rightarrow> channel" where
  "notifies (Operating_state_cb msg) = OperatingStateEvent"
| "notifies (Setpoint_js_cb msg) = SetpointJsEvent"
| "notifies (Setpoint_cp_cb msg) = SetpointCpEvent"
| "notifies (Measured_js_cb msg) = MeasuredJsEvent"
| "notifies (Measured_cp_cb msg) = MeasuredCpEvent"
| "notifies (Measured_cv_cb msg) = MeasuredCvEvent"
| "notifies (Measured_cf_cb msg) = MeasuredCfEvent"
| "notifies (Jacobian_cb msg) = JacobianEvent"
| "notifies Shutdown = OperatingStateEvent"

text \<open>
  \<open>event.wait(timeout)\<close> on a flag that is not set: the caller is parked while the
  traffic runs, until a callback sets the flag (the wait returns true at that
  instant) or the deadline passes (it returns false at the deadline).
\<close>

fun parked :: "channel \<Rightarrow> time \<Rightarrow> utils \<Rightarrow> (time \<times> occurrence) list \<Rightarrow> bool \<times> utils" where
  "parked ev deadline u [] = (False, u\<lparr>clock := deadline, pending := []\<rparr>)"
| "parked ev deadline u ((t, oc) # rest) =
     (if deadline < t then (False, u\<lparr>clock := deadline, pending := (t, oc) # rest\<rparr>)
      else let u' = occur oc (u\<lparr>clock := max (clock u) t, pending := rest\<rparr>)
           in if is_set ev u' then (True, u') else parked ev deadline u' rest)"

text \<open>
  \<open>threading.Event.wait\<close>: true at once when the flag is set; a timeout that is not
  positive does not block.
\<close>

definition event_wait :: "channel \<Rightarrow> real \<Rightarrow> utils \<Rightarrow> bool \<times> utils" where
  "event_wait ev timeout u =
     (if is_set ev u then (True, u)
      else parked ev (clock u + nanos (max 0 timeout)) u (pending u))"

text \<open>The caller runs for \<open>d\<close> nanoseconds without blocking: the traffic due by then is delivered.\<close>

fun delivered :: "time \<Rightarrow> utils \<Rightarrow> (time \<times> occurrence) list \<Rightarrow> utils" where
  "delivered until u [] = u\<lparr>clock := until, pending := []\<rparr>"
| "delivered until u ((t, oc) # rest) =
     (if until < t then u\<lparr>clock := until, pending := (t, oc) # rest\<rparr>
      else delivered until (occur oc (u\<lparr>clock := max (clock u) t, pending := rest\<rparr>)) rest)"

definition elapse :: "time \<Rightarrow> utils \<Rightarrow> utils" where
  "elapse d u = (if d \<le> 0 then u else delivered (clock u + d) u (pending u))"

subsection \<open>Freshness of cached data\<close>

definition wait_for_valid_data ::
  "'a stamped_scheme \<Rightarrow> channel \<Rightarrow> real option \<Rightarrow> real option \<Rightarrow> utils \<Rightarrow> bool \<times> utils" where
  "wait_for_valid_data data event age wait u0 =
     (let u = clear event u0;
          age = (case age of None \<Rightarrow> expected_interval u | Some a \<Rightarrow> a);
          wait = (case wait of None \<Rightarrow> expected_interval u | Some w \<Rightarrow> w)
      in if age \<noteq> 0 \<and> seconds (now u - from_msg (header_stamp data)) \<le> age then (True, u)
         else if wait \<noteq> 0 then
           (let (in_time, u') = event_wait event wait u
            in if in_time then (True, u') else (False, u'))
         else (False, u))"

subsection \<open>The accessors\<close>

text \<open>
  Each accessor evaluates its data and event attributes (an attribute that does not
  exist raises AttributeError), runs the freshness check on them and then reads the
  data attribute again, so that it converts the message a callback stored while it
  waited.  The flag \<open>extra\<close> is the truth value of the argument \<open>extra\<close>.
\<close>

definition setpoint_js :: "real option \<Rightarrow> real option \<Rightarrow> utils \<Rightarrow> (error + pyval) \<times> utils" where
  "setpoint_js age wait u =
     (case (setpoint_js_data u, events u SetpointJsEvent) of
        (Some data, Some flag) \<Rightarrow>
          (let (valid, u') = wait_for_valid_data data SetpointJsEvent age wait u
           in if valid then
                (case setpoint_js_data u' of
                   Some d \<Rightarrow> (Inr (PyList [Array (position d), Array (velocity d), Array (effort d), Float (StampToSeconds (header_stamp d))]), u')
                 | None \<Rightarrow> (Inl AttributeError, u'))
              else (Inl (RuntimeWarning ''unable to get setpoint_js''), u'))
      | _ \<Rightarrow> (Inl AttributeError, u))"

definition setpoint_jp :: "real option \<Rightarrow> real option \<Rightarrow> bool \<Rightarrow> utils \<Rightarrow> (error + pyval) \<times> utils" where
  "setpoint_jp age wait extra u =
     (case (setpoint_js_data u, events u SetpointJsEvent) of
        (Some data, Some flag) \<Rightarrow>
          (let (valid, u') = wait_for_valid_data data SetpointJsEvent age wait u
           in if valid then
                (case setpoint_js_data u' of
                   Some d \<Rightarrow> (Inr (if \<not> extra then (Array (position d))
                          else PyList [(Array (position d)), Float (StampToSeconds (header_stamp d))]), u')
                 | None \<Rightarrow> (Inl AttributeError, u'))
              else (Inl (RuntimeWarning (''unable to get setpoint_jp in namespace '' @ node_namespace u')), u'))
      | _ \<Rightarrow> (Inl AttributeError, u))"

definition setpoint_jv :: "real option \<Rightarrow> real option \<Rightarrow> bool \<Rightarrow> utils \<Rightarrow> (error + pyval) \<times> utils" where
  "setpoint_jv age wait extra u =
     (case (setpoint_js_data u, events u SetpointJsEvent) of
        (Some data, Some flag) \<Rightarrow>
          (let (valid, u') = wait_for_valid_data data SetpointJsEvent age wait u
           in if valid then
                (case setpoint_js_data u' of
                   Some d \<Rightarrow> (Inr (if \<not> extra then (Array (velocity d))
                          else PyList [(Array (velocity d)), Float (StampToSeconds (header_stamp d))]), u')
                 | None \<Rightarrow> (Inl AttributeError, u'))
              else (Inl (RuntimeWarning ''unable to get setpoint_jv''), u'))
      | _ \<Rightarrow> (Inl AttributeError, u))"

definition setpoint_jf :: "real option \<Rightarrow> real option \<Rightarrow> bool \<Rightarrow> utils \<Rightarrow> (error + pyval) \<times> utils" where
  "setpoint_jf age wait extra u =
     (case (setpoint_js_data u, events u SetpointJsEvent) of
        (Some data, Some flag) \<Rightarrow>
          (let (valid, u') = wait_for_valid_data data SetpointJsEvent age wait u
           in if valid then
                (case setpoint_js_data u' of
                   Some d \<Rightarrow> (Inr (if \<not> extra then (Array (effort d))
                          else PyList [(Array (effort d)), Float (StampToSeconds (header_stamp d))]), u')
                 | None \<Rightarrow> (Inl AttributeError, u'))
              else (Inl (RuntimeWarning ''unable to get setpoint_jf''), u'))
      | _ \<Rightarrow> (Inl AttributeError, u))"

definition setpoint_cp :: "real option \<Rightarrow> real option \<Rightarrow> bool \<Rightarrow> utils \<Rightarrow> (error + pyval) \<times> utils" where
  "setpoint_cp age wait extra u =
     (case (setpoint_cp_data u, events u SetpointCpEvent) of
        (Some data, Some flag) \<Rightarrow>
          (let (valid, u') = wait_for_valid_data data SetpointCpEvent age wait u
           in if valid then
                (case setpoint_cp_data u' of
                   Some d \<Rightarrow> (Inr (if \<not> extra then (KDLFrame (FrameFromPoseMsg (pose_of d)))
                          else PyList [(KDLFrame (FrameFromPoseMsg (pose_of d))), Float (StampToSeconds (header_stamp d))]), u')
                 | None \<Rightarrow> (Inl AttributeError, u'))
              else (Inl (RuntimeWarning ''unable to get setpoint_cp''), u'))
      | _ \<Rightarrow> (Inl AttributeError, u))"

definition measured_js :: "real option \<Rightarrow> real option \<Rightarrow> utils \<Rightarrow> (error + pyval) \<times> utils" where
  "measured_js age wait u =
     (case (measured_js_data u, events u MeasuredJsEvent) of
        (Some data, Some flag) \<Rightarrow>
          (let (valid, u') = wait_for_valid_data data MeasuredJsEvent age wait u
           in if valid then
                (case measured_js_data u' of
                   Some d \<Rightarrow> (Inr (PyList [Array (position d), Array (velocity d), Array (effort d), Float (StampToSeconds (header_stamp d))]), u')
                 | None \<Rightarrow> (Inl AttributeError, u'))
              else (Inl (RuntimeWarning ''unable to get measured_js''), u'))
      | _ \<Rightarrow> (Inl AttributeError, u))"

definition measured_jp :: "real option \<Rightarrow> real option \<Rightarrow> bool \<Rightarrow> utils \<Rightarrow> (error + pyval) \<times> utils" where
  "measured_jp age wait extra u =
     (case (measured_js_data u, events u MeasuredJsEvent) of
        (Some data, Some flag) \<Rightarrow>
          (let (valid, u') = wait_for_valid_data data MeasuredJsEvent age wait u
           in if valid then
                (case measured_js_data u' of
                   Some d \<Rightarrow> (Inr (if \<not> extra then (Array (position d))
                          else PyList [(Array (position d)), Float (StampToSeconds (header_stamp d))]), u')
                 | None \<Rightarrow> (Inl AttributeError, u'))
              else (Inl (RuntimeWarning ''unable to get measured_jp''), u'))
      | _ \<Rightarrow> (Inl AttributeError, u))"

definition measured_jv :: "real option \<Rightarrow> real option \<Rightarrow> bool \<Rightarrow> utils \<Rightarrow> (error + pyval) \<times> utils" where
  "measured_jv age wait extra u =
     (case (measured_js_data u, events u MeasuredJsEvent) of
        (Some data, Some flag) \<Rightarrow>
          (let (valid, u') = wait_for_valid_data data MeasuredJsEvent age wait u
           in if valid then
                (case measured_js_data u' of
                   Some d \<Rightarrow> (Inr (if \<not> extra then (Array (velocity d))
                          else PyList [(Array (velocity d)), Float (StampToSeconds (header_stamp d))]), u')
                 | None \<Rightarrow> (Inl AttributeError, u'))
              else (Inl (RuntimeWarning ''unable to get measured_jv''), u'))
      | _ \<Rightarrow> (Inl AttributeError, u))"

definition measured_jf :: "real option \<Rightarrow> real option \<Rightarrow> bool \<Rightarrow> utils \<Rightarrow> (error + pyval) \<times> utils" where
  "measured_jf age wait extra u =
     (case (measured_js_data u, events u MeasuredJsEvent) of
        (Some data, Some flag) \<Rightarrow>
          (let (valid, u') = wait_for_valid_data data MeasuredJsEvent age wait u
           in if valid then
                (case measured_js_data u' of
                   Some d \<Rightarrow> (Inr (if \<not> extra then (Array (effort d))
                          else PyList [(Array (effort d)), Float (StampToSeconds (header_stamp d))]), u')
                 | None \<Rightarrow> (Inl AttributeError, u'))
              else (Inl (RuntimeWarning ''unable to get measured_jf''), u'))
      | _ \<Rightarrow> (Inl AttributeError, u))"

text \<open>
  \<open>__measured_cp\<close> checks the freshness of \<open>__measured_cp_data\<close> and then converts
  the pose of \<open>__setpoint_cp_data\<close>; with \<open>extra\<close> the stamp is the one of
  \<open>__measured_cp_data\<close>.
\<close>

definition measured_cp :: "real option \<Rightarrow> real option \<Rightarrow> bool \<Rightarrow> utils \<Rightarrow> (error + pyval) \<times> utils" where
  "measured_cp age wait extra u =
     (case (measured_cp_data u, events u MeasuredCpEvent) of
        (Some data, Some flag) \<Rightarrow>
          (let (valid, u') = wait_for_valid_data data MeasuredCpEvent age wait u
           in if valid then
                (case setpoint_cp_data u' of
                   Some s \<Rightarrow>
                     (if \<not> extra then (Inr (KDLFrame (FrameFromPoseMsg (pose_of s))), u')
                      else (case measured_cp_data u' of
                              Some d \<Rightarrow> (Inr (PyList [KDLFrame (FrameFromPoseMsg (pose_of s)),
                                                      Float (StampToSeconds (header_stamp d))]), u')
                            | None \<Rightarrow> (Inl AttributeError, u')))
                 | None \<Rightarrow> (Inl AttributeError, u'))
              else (Inl (RuntimeWarning ''unable to get measured_cp''), u'))
      | _ \<Rightarrow> (Inl AttributeError, u))"

definition measured_cv :: "real option \<Rightarrow> real option \<Rightarrow> bool \<Rightarrow> utils \<Rightarrow> (error + pyval) \<times> utils" where
  "measured_cv age wait extra u =
     (case (measured_cv_data u, events u MeasuredCvEvent) of
        (Some data, Some flag) \<Rightarrow>
          (let (valid, u') = wait_for_valid_data data MeasuredCvEvent age wait u
           in if valid then
                (case measured_cv_data u' of
                   Some d \<Rightarrow> (Inr (if \<not> extra then (ArrayFromTwistMsg (twist_of d))
                          else PyList [(ArrayFromTwistMsg (twist_of d)), Float (StampToSeconds (header_stamp d))]), u')
                 | None \<Rightarrow> (Inl AttributeError, u'))
              else (Inl (RuntimeWarning ''unable to get measured_cv''), u'))
      | _ \<Rightarrow> (Inl AttributeError, u))"

definition measured_cf :: "real option \<Rightarrow> real option \<Rightarrow> bool \<Rightarrow> utils \<Rightarrow> (error + pyval) \<times> utils" where
  "measured_cf age wait extra u =
     (case (measured_cf_data u, events u MeasuredCfEvent) of
        (Some data, Some flag) \<Rightarrow>
          (let (valid, u') = wait_for_valid_data data MeasuredCfEvent age wait u
           in if valid then
                (case measured_cf_data u' of
                   Some d \<Rightarrow> (Inr (if \<not> extra then (ArrayFromWrenchMsg (wrench_of d))
                          else PyList [(ArrayFromWrenchMsg (wrench_of d)), Float (StampToSeconds (header_stamp d))]), u')
                 | None \<Rightarrow> (Inl AttributeError, u'))
              else (Inl (RuntimeWarning ''unable to get measured_cf''), u'))
      | _ \<Rightarrow> (Inl AttributeError, u))"

text \<open>
  \<open>__jacobian\<close> has no freshness check.  \<open>layout.dim[0]\<close> and \<open>layout.dim[1]\<close>
  raise IndexError on a shorter list, and numpy refuses a shape that does not hold
  the data.
\<close>

definition jacobian :: "utils \<Rightarrow> (error + pyval) \<times> utils" where
  "jacobian u =
     (case jacobian_data u of
        None \<Rightarrow> (Inl AttributeError, u)
      | Some d \<Rightarrow>
          (case layout_dim d of
             r # c # rest \<Rightarrow>
               if r * c = length (array_data d) then (Inr (Matrix r c (array_data d)), u)
               else (Inl ValueError, u)
           | _ \<Rightarrow> (Inl IndexError, u)))"

subsection \<open>The operating state\<close>

text \<open>
  The three bounded waits call themselves again after a wakeup that does not show
  the expected record.  Every such call has consumed traffic or a set flag, which
  is why the recursion ends; the lemmas below establish that.
\<close>

lemma pending_occur: "pending (occur oc u) = pending u"
  by (cases oc) (simp_all add: operating_state_cb_def setpoint_js_cb_def setpoint_cp_cb_def
      measured_js_cb_def measured_cp_cb_def measured_cv_cb_def measured_cf_cb_def jacobian_cb_def
      ros_shutdown_def set_event_def)

lemma parked_pending_le: "length (pending (snd (parked ev dl u ps))) \<le> length ps"
  by (induction ps arbitrary: u) (auto simp: Let_def pending_occur le_SucI)

lemma parked_pending_less:
  "fst (parked ev dl u ps) \<Longrightarrow> length (pending (snd (parked ev dl u ps))) < length ps"
proof (induction ps arbitrary: u)
  case Nil
  then show ?case by simp
next
  case (Cons p ps)
  obtain t oc where p: "p = (t, oc)" by (cases p)
  show ?case
    using Cons.prems Cons.IH [of "occur oc (u\<lparr>clock := max (clock u) t, pending := ps\<rparr>)"]
    by (auto simp: p Let_def pending_occur less_SucI split: if_splits)
qed

lemma delivered_pending:
  "length (pending (delivered until u ps)) < length ps \<or>
   (length (pending (delivered until u ps)) = length ps \<and> events (delivered until u ps) = events u)"
proof (induction ps arbitrary: u)
  case Nil
  then show ?case by simp
next
  case (Cons p ps)
  obtain t oc where p: "p = (t, oc)" by (cases p)
  show ?case
    using Cons.IH [of "occur oc (u\<lparr>clock := max (clock u) t, pending := ps\<rparr>)"]
    by (auto simp: p)
qed

definition pending_measure :: "channel \<Rightarrow> utils \<Rightarrow> nat" where
  "pending_measure ev u = 2 * length (pending u) + (if is_set ev u then 1 else 0)"

lemma elapse_measure:
  "\<not> is_set ev u \<Longrightarrow> pending_measure ev (elapse d u) \<le> 2 * length (pending u)"
  using delivered_pending [of "clock u + d" u "pending u"]
  by (auto simp: pending_measure_def elapse_def is_set_def)

lemma elapse_pending_le: "length (pending (elapse d u)) \<le> length (pending u)"
  using delivered_pending [of "clock u + d" u "pending u"]
  by (auto simp: elapse_def)

lemma event_wait_measure:
  "event_wait ev timeout u = (True, u1) \<Longrightarrow> 2 * length (pending u1) < pending_measure ev u"
  using parked_pending_less [of ev "clock u + nanos (max 0 timeout)" u "pending u"]
  by (auto simp: event_wait_def pending_measure_def split: if_splits)

lemma event_wait_pending_less:
  "\<not> is_set ev u \<Longrightarrow> event_wait ev timeout u = (True, u1) \<Longrightarrow> length (pending u1) < length (pending u)"
  using parked_pending_less [of ev "clock u + nanos (max 0 timeout)" u "pending u"]
  by (auto simp: event_wait_def)

lemma retry_measure:
  assumes "event_wait ev timeout u = (True, y)"
  shows "pending_measure ev (elapse d (clear ev y)) < pending_measure ev u"
proof -
  have "\<not> is_set ev (clear ev y)"
    by (simp add: clear_def is_set_def)
  then have "pending_measure ev (elapse d (clear ev y)) \<le> 2 * length (pending (clear ev y))"
    by (rule elapse_measure)
  moreover have "pending (clear ev y) = pending y"
    by (simp add: clear_def)
  moreover have "2 * length (pending y) < pending_measure ev u"
    using assms by (rule event_wait_measure)
  ultimately show ?thesis by simp
qed

lemma retry_pending:
  assumes "event_wait ev timeout (clear ev u) = (True, y)"
  shows "length (pending (elapse d y)) < length (pending u)"
proof -
  have "\<not> is_set ev (clear ev u)"
    by (simp add: clear_def is_set_def)
  then have "length (pending y) < length (pending (clear ev u))"
    using assms by (rule event_wait_pending_less)
  moreover have "pending (clear ev u) = pending u"
    by (simp add: clear_def)
  ultimately show ?thesis
    using elapse_pending_le [of d y] by simp
qed

text \<open>
  \<open>__wait_for_operating_state\<close> does not clear the event before its first wait
  (its callers do); it clears it before it retries, with the timeout less the time
  it measured for this attempt.
\<close>

function wait_for_operating_state :: "string \<Rightarrow> real \<Rightarrow> utils \<Rightarrow> (error + bool) \<times> utils" where
  "wait_for_operating_state expected_state timeout u =
     (if timeout < 0 then (Inr False, u)
      else
        let start_time = now u in
        if events u OperatingStateEvent = None then (Inl AttributeError, u)
        else
          let (in_time, u1) = event_wait OperatingStateEvent timeout u in
          if \<not> ok u1 then (Inr False, u1)
          else if in_time then
            (case operating_state_data u1 of
               None \<Rightarrow> (Inl AttributeError, u1)
             | Some d \<Rightarrow>
                 if state d = expected_state then (Inr True, u1)
                 else
                   let elapsed_time = seconds (now u1 - start_time);
                       u2 = clear OperatingStateEvent u1
                   in wait_for_operating_state expected_state (timeout - elapsed_time)
                        (elapse (latency u2) u2))
          else (Inr False, u1))"
  by pat_completeness auto
termination
proof (relation "measure (\<lambda>(expected_state, timeout, u). pending_measure OperatingStateEvent u)", goal_cases)
  case 1
  show ?case by simp
next
  case (2 expected_state timeout u x xa xb y x2 xaa xc)
  then have "event_wait OperatingStateEvent timeout u = (True, y)"
    by simp
  from retry_measure [OF this] 2 show ?case
    by simp
qed

text \<open>\<open>__wait_for_homed\<close> clears the event before every wait.\<close>

function wait_for_homed :: "real \<Rightarrow> bool \<Rightarrow> utils \<Rightarrow> (error + bool) \<times> utils" where
  "wait_for_homed timeout expected_homed u =
     (if timeout < 0 then (Inr False, u)
      else
        let start_time = now u in
        if events u OperatingStateEvent = None then (Inl AttributeError, u)
        else
          let u1 = clear OperatingStateEvent u;
              (in_time, u2) = event_wait OperatingStateEvent timeout u1
          in
          if \<not> ok u2 then (Inr False, u2)
          else if in_time then
            (case operating_state_data u2 of
               None \<Rightarrow> (Inl AttributeError, u2)
             | Some d \<Rightarrow>
                 if msg_is_homed d = expected_homed \<and> \<not> msg_is_busy d then (Inr True, u2)
                 else
                   let elapsed_time = seconds (now u2 - start_time)
                   in wait_for_homed (timeout - elapsed_time) expected_homed
                        (elapse (latency u2) u2))
          else (Inr False, u2))"
  by pat_completeness auto
termination
proof (relation "measure (\<lambda>(timeout, expected_homed, u). length (pending u))", goal_cases)
  case 1
  show ?case by simp
next
  case (2 timeout expected_homed u x xa xb xc y x2 xaa)
  then have "event_wait OperatingStateEvent timeout (clear OperatingStateEvent u) = (True, y)"
    by simp
  from retry_pending [OF this] show ?case
    by simp
qed

text \<open>
  \<open>__wait_for_busy\<close>: when the start time is later than the clock reading, a record
  stamped after the start time with the expected flag is accepted at once (the
  comparison of the header stamp with the start time is the comparison of the two
  instants).  Otherwise the event is cleared and the next record with the expected
  flag is accepted.
\<close>

function wait_for_busy :: "bool \<Rightarrow> time option \<Rightarrow> real \<Rightarrow> utils \<Rightarrow> (error + bool) \<times> utils" where
  "wait_for_busy expected_busy start_time timeout u =
     (if timeout < 0 then (Inr False, u)
      else
        let start_time = (case start_time of None \<Rightarrow> now u | Some t \<Rightarrow> t) in
        if start_time > now u \<and> operating_state_data u = None then (Inl AttributeError, u)
        else if start_time > now u \<and>
                (case operating_state_data u of
                   Some d \<Rightarrow> from_msg (header_stamp d) > start_time \<and> msg_is_busy d = expected_busy
                 | None \<Rightarrow> False)
        then (Inr True, u)
        else if events u OperatingStateEvent = None then (Inl AttributeError, u)
        else
          let start_time' = now u;
              u1 = clear OperatingStateEvent u;
              (in_time, u2) = event_wait OperatingStateEvent timeout u1
          in
          if \<not> ok u2 then (Inr False, u2)
          else if in_time then
            (case operating_state_data u2 of
               None \<Rightarrow> (Inl AttributeError, u2)
             | Some d \<Rightarrow>
                 if msg_is_busy d = expected_busy then (Inr True, u2)
                 else
                   let elapsed_time = seconds (now u2 - start_time')
                   in wait_for_busy expected_busy (Some start_time) (timeout - elapsed_time)
                        (elapse (latency u2) u2))
          else (Inr False, u2))"
  by pat_completeness auto
termination
proof (relation "measure (\<lambda>(expected_busy, start_time, timeout, u). length (pending u))", goal_cases)
  case 1
  show ?case by simp
next
  case (2 expected_busy start_time timeout u x xa xb xc xba y x2 xbb)
  then have "event_wait OperatingStateEvent timeout (clear OperatingStateEvent u) = (True, y)"
    by simp
  from retry_pending [OF this] show ?case
    by simp
qed

definition operating_state :: "bool \<Rightarrow> utils \<Rightarrow> error + pyval" where
  "operating_state extra u =
     (case operating_state_data u of
        None \<Rightarrow> Inl AttributeError
      | Some d \<Rightarrow>
          if \<not> extra then Inr (Str (state d))
          else Inr (PyList [Str (state d), Float (StampToSeconds (header_stamp d))]))"

definition publish :: "handle \<Rightarrow> ros_msg \<Rightarrow> utils \<Rightarrow> utils" where
  "publish pub msg u = u\<lparr>published := published u @ [(pub, msg)]\<rparr>"

definition state_command :: "string \<Rightarrow> utils \<Rightarrow> (error + unit) \<times> utils" where
  "state_command st u =
     (if events u OperatingStateEvent = None then (Inl AttributeError, u)
      else
        let u1 = clear OperatingStateEvent u in
        case state_command_publisher u1 of
          None \<Rightarrow> (Inl AttributeError, u1)
        | Some pub \<Rightarrow> (Inr (), publish pub (StringStamped st) u1))"

definition is_enabled :: "utils \<Rightarrow> error + bool" where
  "is_enabled u =
     (case operating_state_data u of
        None \<Rightarrow> Inl AttributeError
      | Some d \<Rightarrow> Inr (state d = ''ENABLED''))"

definition enable :: "real \<Rightarrow> utils \<Rightarrow> (error + bool) \<times> utils" where
  "enable timeout u =
     (case is_enabled u of
        Inl e \<Rightarrow> (Inl e, u)
      | Inr True \<Rightarrow>
          (case state_command ''enable'' u of
             (Inl e, u1) \<Rightarrow> (Inl e, u1)
           | (Inr r, u1) \<Rightarrow> (Inr True, u1))
      | Inr False \<Rightarrow>
          if events u OperatingStateEvent = None then (Inl AttributeError, u)
          else
            (case state_command ''enable'' (clear OperatingStateEvent u) of
               (Inl e, u1) \<Rightarrow> (Inl e, u1)
             | (Inr r, u1) \<Rightarrow> wait_for_operating_state ''ENABLED'' timeout u1))"

definition is_disabled :: "utils \<Rightarrow> error + bool" where
  "is_disabled u =
     (case operating_state_data u of
        None \<Rightarrow> Inl AttributeError
      | Some d \<Rightarrow> Inr (state d = ''DISABLED''))"

definition disable :: "real \<Rightarrow> utils \<Rightarrow> (error + bool) \<times> utils" where
  "disable timeout u =
     (case is_disabled u of
        Inl e \<Rightarrow> (Inl e, u)
      | Inr True \<Rightarrow>
          (case state_command ''disable'' u of
             (Inl e, u1) \<Rightarrow> (Inl e, u1)
           | (Inr r, u1) \<Rightarrow> (Inr True, u1))
      | Inr False \<Rightarrow>
          if events u OperatingStateEvent = None then (Inl AttributeError, u)
          else
            (case state_command ''disable'' (clear OperatingStateEvent u) of
               (Inl e, u1) \<Rightarrow> (Inl e, u1)
             | (Inr r, u1) \<Rightarrow> wait_for_operating_state ''DISABLED'' timeout u1))"

definition is_homed :: "bool \<Rightarrow> utils \<Rightarrow> error + pyval" where
  "is_homed extra u =
     (case operating_state_data u of
        None \<Rightarrow> Inl AttributeError
      | Some d \<Rightarrow>
          if \<not> extra then Inr (Bool (msg_is_homed d))
          else Inr (PyList [Bool (msg_is_homed d), Float (StampToSeconds (header_stamp d))]))"

definition home :: "real \<Rightarrow> utils \<Rightarrow> (error + bool) \<times> utils" where
  "home timeout u =
     (case is_homed False u of
        Inl e \<Rightarrow> (Inl e, u)
      | Inr homed \<Rightarrow>
          if homed = Bool True then
            (case state_command ''home'' u of
               (Inl e, u1) \<Rightarrow> (Inl e, u1)
             | (Inr r, u1) \<Rightarrow> (Inr True, u1))
          else if events u OperatingStateEvent = None then (Inl AttributeError, u)
          else
            (case state_command ''home'' (clear OperatingStateEvent u) of
               (Inl e, u1) \<Rightarrow> (Inl e, u1)
             | (Inr r, u1) \<Rightarrow> wait_for_homed timeout True u1))"

definition unhome :: "real \<Rightarrow> utils \<Rightarrow> (error + bool) \<times> utils" where
  "unhome timeout u =
     (case is_homed False u of
        Inl e \<Rightarrow> (Inl e, u)
      | Inr homed \<Rightarrow>
          if homed \<noteq> Bool True then
            (case state_command ''unhome'' u of
               (Inl e, u1) \<Rightarrow> (Inl e, u1)
             | (Inr r, u1) \<Rightarrow> (Inr True, u1))
          else if events u OperatingStateEvent = None then (Inl AttributeError, u)
          else
            (case state_command ''unhome'' (clear OperatingStateEvent u) of
               (Inl e, u1) \<Rightarrow> (Inl e, u1)
             | (Inr r, u1) \<Rightarrow> wait_for_homed timeout False u1))"


subsection \<open>Construction, registration and teardown\<close>

text \<open>
  The node keeps the subscriptions and publishers it created.  \<open>destroy_subscription\<close>
  and \<open>destroy_publisher\<close> of rclpy remove a handle the node holds and answer false,
  without an error, for one it does not hold.  An \<open>add_*\<close> method also keeps the
  subscription under a name of its own (\<open>__setpoint_js_subscriber\<close> and the like);
  nothing reads these attributes, and the record leaves them out.
\<close>

definition create_subscription :: "string \<Rightarrow> utils \<Rightarrow> handle \<times> utils" where
  "create_subscription topic u =
     (let sub = Subscription (next_handle u) topic
      in (sub, u\<lparr>node_subscriptions := insert sub (node_subscriptions u),
                  next_handle := Suc (next_handle u)\<rparr>))"

definition create_publisher :: "string \<Rightarrow> utils \<Rightarrow> handle \<times> utils" where
  "create_publisher topic u =
     (let pub = Publisher (next_handle u) topic
      in (pub, u\<lparr>node_publishers := insert pub (node_publishers u),
                  next_handle := Suc (next_handle u)\<rparr>))"

definition destroy_subscription :: "handle \<Rightarrow> utils \<Rightarrow> bool \<times> utils" where
  "destroy_subscription sub u =
     (if sub \<in> node_subscriptions u
      then (True, u\<lparr>node_subscriptions := node_subscriptions u - {sub}\<rparr>)
      else (False, u))"

definition destroy_publisher :: "handle \<Rightarrow> utils \<Rightarrow> bool \<times> utils" where
  "destroy_publisher pub u =
     (if pub \<in> node_publishers u
      then (True, u\<lparr>node_publishers := node_publishers u - {pub}\<rparr>)
      else (False, u))"

text \<open>
  \<open>__init__\<close>, for an object with the attributes \<open>class_instance\<close> and a node with the
  given name and namespace, before any traffic.
\<close>

definition init :: "string set \<Rightarrow> string \<Rightarrow> string \<Rightarrow> real \<Rightarrow> objref option \<Rightarrow> utils" where
  "init class_instance name namespace interval instance_given =
     \<lparr>class_instance_dict = class_instance,
      operating_state_instance = instance_given,
      expected_interval = interval,
      subscribers = [],
      publishers = [],
      attributes = [],
      events = Map.empty,
      operating_state_data = None,
      setpoint_js_data = None,
      setpoint_cp_data = None,
      measured_js_data = None,
      measured_cp_data = None,
      measured_cv_data = None,
      measured_cf_data = None,
      jacobian_data = None,
      state_command_publisher = None,
      move_jp_publisher = None,
      node_name = name,
      node_namespace = namespace,
      node_subscriptions = {},
      node_publishers = {},
      next_handle = 0,
      published = [],
      clock = 0,
      ok = True,
      pending = [],
      latency = 0\<rparr>"

text \<open>\<open>delattr\<close> raises AttributeError for a name the object does not have.\<close>

fun delattrs :: "string list \<Rightarrow> utils \<Rightarrow> (error + unit) \<times> utils" where
  "delattrs [] u = (Inr (), u)"
| "delattrs (attr # rest) u =
     (if attr \<in> class_instance_dict u
      then delattrs rest (u\<lparr>class_instance_dict := class_instance_dict u - {attr}\<rparr>)
      else (Inl AttributeError, u))"

definition remove_all :: "utils \<Rightarrow> (error + unit) \<times> utils" where
  "remove_all u =
     (let u1 = fold (\<lambda>sub v. snd (destroy_subscription sub v)) (subscribers u) u;
          u2 = fold (\<lambda>pub v. snd (destroy_publisher pub v)) (publishers u1) u1
      in delattrs (attributes u2) u2)"

definition del :: "utils \<Rightarrow> (error + unit) \<times> utils" where
  "del u = remove_all u"

definition add_operating_state :: "string \<Rightarrow> utils \<Rightarrow> (error + unit) \<times> utils" where
  "add_operating_state ros_sub_namespace u =
     (if ''operating_state'' \<in> class_instance_dict u
      then (Inl (RuntimeWarning ''operating_state already exists''), u)
      else
        let u1 = u\<lparr>operating_state_data := Some OperatingState,
                   events := (events u)(OperatingStateEvent \<mapsto> False)\<rparr>;
            (sub, u2) = create_subscription (ros_sub_namespace @ ''operating_state'') u1;
            u3 = u2\<lparr>subscribers := subscribers u2 @ [sub]\<rparr>;
            (pub, u4) = create_publisher (ros_sub_namespace @ ''state_command'') u3;
            u5 = u4\<lparr>state_command_publisher := Some pub, publishers := publishers u4 @ [pub]\<rparr>;
            u6 = u5\<lparr>class_instance_dict := class_instance_dict u5 \<union>
                   {''operating_state'', ''wait_for_operating_state'', ''state_command'',
                    ''is_enabled'', ''enable'', ''is_disabled'', ''disable'', ''home'',
                    ''unhome'', ''is_homed'', ''is_busy'', ''wait_for_busy''}\<rparr>
        in if operating_state_instance u6 = None
           then (Inr (), u6\<lparr>operating_state_instance := Some Class_instance\<rparr>)
           else (Inl (RuntimeWarning (''over writting operating state for node '' @ node_name u6)), u6))"

definition add_setpoint_js :: "string \<Rightarrow> utils \<Rightarrow> (error + unit) \<times> utils" where
  "add_setpoint_js ros_sub_namespace u =
     (if ''setpoint_js'' \<in> class_instance_dict u
      then (Inl (RuntimeWarning ''setpoint_js already exists''), u)
      else
        let u1 = u\<lparr>setpoint_js_data := Some JointState,
                   events := (events u)(SetpointJsEvent \<mapsto> False)\<rparr>;
            (sub, u2) = create_subscription (ros_sub_namespace @ ''setpoint_js'') u1;
            u3 = u2\<lparr>subscribers := subscribers u2 @ [sub]\<rparr>
        in (Inr (), u3\<lparr>class_instance_dict := class_instance_dict u3 \<union>
                   {''setpoint_js'', ''setpoint_jp'', ''setpoint_jv'', ''setpoint_jf''}\<rparr>))"

definition add_setpoint_cp :: "string \<Rightarrow> utils \<Rightarrow> (error + unit) \<times> utils" where
  "add_setpoint_cp ros_sub_namespace u =
     (if ''setpoint_cp'' \<in> class_instance_dict u
      then (Inl (RuntimeWarning ''setpoint_cp already exists''), u)
      else
        let u1 = u\<lparr>setpoint_cp_data := Some PoseStamped,
                   events := (events u)(SetpointCpEvent \<mapsto> False)\<rparr>;
            (sub, u2) = create_subscription (ros_sub_namespace @ ''setpoint_cp'') u1;
            u3 = u2\<lparr>subscribers := subscribers u2 @ [sub]\<rparr>
        in (Inr (), u3\<lparr>class_instance_dict := class_instance_dict u3 \<union> {''setpoint_cp''}\<rparr>))"

definition add_measured_js :: "string \<Rightarrow> utils \<Rightarrow> (error + unit) \<times> utils" where
  "add_measured_js ros_sub_namespace u =
     (if ''measured_js'' \<in> class_instance_dict u
      then (Inl (RuntimeWarning ''measured_js already exists''), u)
      else
        let u1 = u\<lparr>measured_js_data := Some JointState,
                   events := (events u)(MeasuredJsEvent \<mapsto> False)\<rparr>;
            (sub, u2) = create_subscription (ros_sub_namespace @ ''measured_js'') u1;
            u3 = u2\<lparr>subscribers := subscribers u2 @ [sub]\<rparr>
        in (Inr (), u3\<lparr>class_instance_dict := class_instance_dict u3 \<union>
                   {''measured_js'', ''measured_jp'', ''measured_jv'', ''measured_jf''}\<rparr>))"

definition add_measured_cp :: "string \<Rightarrow> utils \<Rightarrow> (error + unit) \<times> utils" where
  "add_measured_cp ros_sub_namespace u =
     (if ''measured_cp'' \<in> class_instance_dict u
      then (Inl (RuntimeWarning ''measured_cp already exists''), u)
      else
        let u1 = u\<lparr>measured_cp_data := Some PoseStamped,
                   events := (events u)(MeasuredCpEvent \<mapsto> False)\<rparr>;
            (sub, u2) = create_subscription (ros_sub_namespace @ ''measured_cp'') u1;
            u3 = u2\<lparr>subscribers := subscribers u2 @ [sub]\<rparr>
        in (Inr (), u3\<lparr>class_instance_dict := class_instance_dict u3 \<union> {''measured_cp''}\<rparr>))"

definition add_measured_cv :: "string \<Rightarrow> utils \<Rightarrow> (error + unit) \<times> utils" where
  "add_measured_cv ros_sub_namespace u =
     (if ''measured_cv'' \<in> class_instance_dict u
      then (Inl (RuntimeWarning ''measured_cv already exists''), u)
      else
        let u1 = u\<lparr>measured_cv_data := Some TwistStamped,
                   events := (events u)(MeasuredCvEvent \<mapsto> False)\<rparr>;
            (sub, u2) = create_subscription (ros_sub_namespace @ ''measured_cv'') u1;
            u3 = u2\<lparr>subscribers := subscribers u2 @ [sub]\<rparr>
        in (Inr (), u3\<lparr>class_instance_dict := class_instance_dict u3 \<union> {''measured_cv''}\<rparr>))"

definition add_measured_cf :: "string \<Rightarrow> utils \<Rightarrow> (error + unit) \<times> utils" where
  "add_measured_cf ros_sub_namespace u =
     (if ''measured_cf'' \<in> class_instance_dict u
      then (Inl (RuntimeWarning ''measured_cf already exists''), u)
      else
        let u1 = u\<lparr>measured_cf_data := Some WrenchStamped,
                   events := (events u)(MeasuredCfEvent \<mapsto> False)\<rparr>;
            (sub, u2) = create_subscription (ros_sub_namespace @ ''measured_cf'') u1;
            u3 = u2\<lparr>subscribers := subscribers u2 @ [sub]\<rparr>
        in (Inr (), u3\<lparr>class_instance_dict := class_instance_dict u3 \<union> {''measured_cf''}\<rparr>))"

definition add_jacobian :: "string \<Rightarrow> utils \<Rightarrow> (error + unit) \<times> utils" where
  "add_jacobian ros_sub_namespace u =
     (if ''jacobian'' \<in> class_instance_dict u
      then (Inl (RuntimeWarning ''jacobian already exists''), u)
      else
        let u1 = u\<lparr>jacobian_data := Some Float64MultiArray,
                   events := (events u)(JacobianEvent \<mapsto> False)\<rparr>;
            (sub, u2) = create_subscription (ros_sub_namespace @ ''jacobian'') u1;
            u3 = u2\<lparr>subscribers := subscribers u2 @ [sub]\<rparr>
        in (Inr (), u3\<lparr>class_instance_dict := class_instance_dict u3 \<union> {''jacobian''}\<rparr>))"

definition add_move_jp :: "string \<Rightarrow> utils \<Rightarrow> (error + unit) \<times> utils" where
  "add_move_jp ros_sub_namespace u =
     (if ''move_jp'' \<in> class_instance_dict u
      then (Inl (RuntimeWarning ''move_jp already exists''), u)
      else
        let (pub, u1) = create_publisher (ros_sub_namespace @ ''move_jp'') u;
            u2 = u1\<lparr>move_jp_publisher := Some pub, publishers := publishers u1 @ [pub]\<rparr>
        in (Inr (), u2\<lparr>class_instance_dict := class_instance_dict u2 \<union> {''move_jp''}\<rparr>))"

subsection \<open>Move commands\<close>

text \<open>
  Modelled from the spec: \<open>crtk.wait_move_handle\<close> is not part of \<open>utils.py\<close>.  The
  handle records the clock reading when it is made, and its \<open>wait\<close> delegates to
  \<open>wait_for_busy\<close> with the expected flag false and that start time.
\<close>

record wait_move_handle =
  handle_start_time :: time

definition new_wait_move_handle :: "utils \<Rightarrow> wait_move_handle" where
  "new_wait_move_handle u = \<lparr>handle_start_time = now u\<rparr>"


text \<open>\<open>__move_jp\<close> makes the handle before it publishes the goal.\<close>

definition move_jp :: "real list \<Rightarrow> utils \<Rightarrow> (error + wait_move_handle) \<times> utils" where
  "move_jp setpoint u =
     (let h = new_wait_move_handle u in
      case move_jp_publisher u of
        None \<Rightarrow> (Inl AttributeError, u)
      | Some pub \<Rightarrow> (Inr h, publish pub (JointStateOut setpoint) u))"

section \<open>Properties\<close>

subsection \<open>Traffic and parked callers\<close>

text \<open>
  A callback touches its data attribute and its event only.  A parked caller is
  released by the first occurrence that sets its event and otherwise stays parked
  until its deadline.
\<close>

lemmas cb_defs = operating_state_cb_def setpoint_js_cb_def setpoint_cp_cb_def
  measured_js_cb_def measured_cp_cb_def measured_cv_cb_def measured_cf_cb_def jacobian_cb_def
  ros_shutdown_def set_event_def

lemma occur_clock [simp]: "clock (occur oc u) = clock u"
  by (cases oc) (simp_all add: cb_defs)

lemma occur_latency [simp]: "latency (occur oc u) = latency u"
  by (cases oc) (simp_all add: cb_defs)

lemma occur_expected_interval [simp]: "expected_interval (occur oc u) = expected_interval u"
  by (cases oc) (simp_all add: cb_defs)

lemma occur_node_namespace [simp]: "node_namespace (occur oc u) = node_namespace u"
  by (cases oc) (simp_all add: cb_defs)

lemma occur_ok: "ok (occur oc u) = (ok u \<and> oc \<noteq> Shutdown)"
  by (cases oc) (simp_all add: cb_defs)

lemma events_occur:
  "events (occur oc u) =
     (if events u (notifies oc) = None then events u else (events u)(notifies oc \<mapsto> True))"
  by (cases oc) (simp_all add: cb_defs)

lemma is_set_occur:
  "is_set ev (occur oc u) = (is_set ev u \<or> (notifies oc = ev \<and> events u ev \<noteq> None))"
  by (auto simp: is_set_def events_occur)

lemma parked_silent:
  assumes "\<not> is_set ev u" and "\<forall>(t, oc) \<in> set ps. t \<le> dl \<longrightarrow> notifies oc \<noteq> ev"
  shows "fst (parked ev dl u ps) = False \<and> clock (snd (parked ev dl u ps)) = dl"
  using assms
proof (induction ps arbitrary: u)
  case Nil
  then show ?case by simp
next
  case (Cons p ps)
  obtain t oc where p: "p = (t, oc)" by (cases p)
  let ?u' = "occur oc (u\<lparr>clock := max (clock u) t, pending := ps\<rparr>)"
  show ?case
  proof (cases "dl < t")
    case True
    then show ?thesis by (simp add: p)
  next
    case False
    with Cons.prems have "notifies oc \<noteq> ev" by (auto simp: p)
    with Cons.prems(1) have quiet: "\<not> is_set ev ?u'"
      by (simp add: is_set_occur) (simp add: is_set_def)
    from Cons.prems(2) have "\<forall>(t, oc) \<in> set ps. t \<le> dl \<longrightarrow> notifies oc \<noteq> ev"
      by simp
    from Cons.IH [OF quiet this] quiet False show ?thesis
      by (simp add: p Let_def)
  qed
qed


lemma parked_timeout_clock:
  "\<not> fst (parked ev dl u ps) \<Longrightarrow> clock (snd (parked ev dl u ps)) = dl"
proof (induction ps arbitrary: u)
  case Nil
  then show ?case by simp
next
  case (Cons p ps)
  obtain t oc where p: "p = (t, oc)" by (cases p)
  show ?case
    using Cons.prems Cons.IH [of "occur oc (u\<lparr>clock := max (clock u) t, pending := ps\<rparr>)"]
    by (auto simp: p Let_def split: if_splits)
qed




subsection \<open>The freshness check\<close>

text \<open>
  Vocabulary for the statements: the age or wait that applies when the argument may
  be omitted, whether the cached message is accepted, and whether the traffic
  holds a notification of an event by a deadline.  \<open>freshness_accessors\<close> lists the
  accessors that run the freshness check, each with the event and the stamp of the
  data attribute it passes to the check.
\<close>

lemma clear_fields [simp]:
  "clock (clear ev u) = clock u" "pending (clear ev u) = pending u"
  "expected_interval (clear ev u) = expected_interval u"
  "events (clear ev u) = (events u)(ev \<mapsto> False)"
  "is_set ev (clear ev u) = False"
  by (simp_all add: clear_def is_set_def)

definition max_age :: "real option \<Rightarrow> utils \<Rightarrow> real" where
  "max_age age u = (case age of None \<Rightarrow> expected_interval u | Some a \<Rightarrow> a)"

definition cache_valid :: "'a stamped_scheme \<Rightarrow> real option \<Rightarrow> utils \<Rightarrow> bool" where
  "cache_valid data age u =
     (max_age age u \<noteq> 0 \<and> seconds (clock u - from_msg (header_stamp data)) \<le> max_age age u)"

definition arrives :: "channel \<Rightarrow> time \<Rightarrow> (time \<times> occurrence) list \<Rightarrow> bool" where
  "arrives ev deadline ps = (\<exists>(t, oc) \<in> set ps. t \<le> deadline \<and> notifies oc = ev)"


lemma wfvd_none:
  "max_age age u = 0 \<Longrightarrow> max_age wait u = 0 \<Longrightarrow>
   wait_for_valid_data data ev age wait u = (False, clear ev u)"
  by (cases age; cases wait)
    (simp_all add: wait_for_valid_data_def max_age_def Let_def)

lemma wfvd_miss:
  "\<not> cache_valid data age u \<Longrightarrow> max_age wait u \<noteq> 0 \<Longrightarrow>
   wait_for_valid_data data ev age wait u =
     parked ev (clock u + nanos (max 0 (max_age wait u))) (clear ev u) (pending u)"
  by (cases age; cases wait)
    (auto simp: wait_for_valid_data_def cache_valid_def max_age_def now_def Let_def event_wait_def
      split: prod.splits)

lemma wfvd_miss0:
  "\<not> cache_valid data age u \<Longrightarrow> max_age wait u = 0 \<Longrightarrow>
   wait_for_valid_data data ev age wait u = (False, clear ev u)"
  by (cases age; cases wait)
    (auto simp: wait_for_valid_data_def cache_valid_def max_age_def now_def Let_def)

definition freshness_accessors ::
  "(channel \<times> (utils \<Rightarrow> time_msg option) \<times>
    (real option \<Rightarrow> real option \<Rightarrow> bool \<Rightarrow> utils \<Rightarrow> (error + pyval) \<times> utils)) list" where
  "freshness_accessors =
     [(SetpointJsEvent, \<lambda>u. map_option header_stamp (setpoint_js_data u), \<lambda>age wait extra. setpoint_js age wait),
      (SetpointJsEvent, \<lambda>u. map_option header_stamp (setpoint_js_data u), setpoint_jp),
      (SetpointJsEvent, \<lambda>u. map_option header_stamp (setpoint_js_data u), setpoint_jv),
      (SetpointJsEvent, \<lambda>u. map_option header_stamp (setpoint_js_data u), setpoint_jf),
      (SetpointCpEvent, \<lambda>u. map_option header_stamp (setpoint_cp_data u), setpoint_cp),
      (MeasuredJsEvent, \<lambda>u. map_option header_stamp (measured_js_data u), \<lambda>age wait extra. measured_js age wait),
      (MeasuredJsEvent, \<lambda>u. map_option header_stamp (measured_js_data u), measured_jp),
      (MeasuredJsEvent, \<lambda>u. map_option header_stamp (measured_js_data u), measured_jv),
      (MeasuredJsEvent, \<lambda>u. map_option header_stamp (measured_js_data u), measured_jf),
      (MeasuredCpEvent, \<lambda>u. map_option header_stamp (measured_cp_data u), measured_cp),
      (MeasuredCvEvent, \<lambda>u. map_option header_stamp (measured_cv_data u), measured_cv),
      (MeasuredCfEvent, \<lambda>u. map_option header_stamp (measured_cf_data u), measured_cf)]"

lemmas accessor_defs = setpoint_js_def setpoint_jp_def setpoint_jv_def setpoint_jf_def setpoint_cp_def
  measured_js_def measured_jp_def measured_jv_def measured_jf_def measured_cp_def measured_cv_def
  measured_cf_def

definition resolve :: "time_msg \<Rightarrow> channel \<Rightarrow> real option \<Rightarrow> real option \<Rightarrow> utils \<Rightarrow> bool \<times> utils" where
  "resolve stamp ev age wait u = wait_for_valid_data \<lparr>header_stamp = stamp\<rparr> ev age wait u"

lemma wfvd_resolve:
  "wait_for_valid_data data ev age wait u = resolve (header_stamp data) ev age wait u"
  by (simp add: resolve_def wait_for_valid_data_def)

definition unavailable :: "error + pyval \<Rightarrow> bool" where
  "unavailable r = (case r of Inl e \<Rightarrow> DataUnavailable e | Inr v \<Rightarrow> False)"

lemma accessor_resolves:
  assumes "(ev, stamp_of, q) \<in> set freshness_accessors"
    and "stamp_of u = Some s" and "events u ev \<noteq> None"
  shows "snd (q age wait extra u) = snd (resolve s ev age wait u) \<and>
         (\<not> fst (resolve s ev age wait u) \<longrightarrow> unavailable (fst (q age wait extra u)))"
  using assms unfolding freshness_accessors_def
  by (auto simp: accessor_defs wfvd_resolve unavailable_def split: prod.splits option.splits)

lemma resolve_fails:
  assumes "\<not> cache_valid data age u"
    and "\<not> arrives ev (clock u + nanos (max 0 (max_age wait u))) (pending u)"
  shows "\<not> fst (wait_for_valid_data data ev age wait u) \<and>
         clock (snd (wait_for_valid_data data ev age wait u)) = clock u + nanos (max 0 (max_age wait u))"
proof (cases "max_age wait u = 0")
  case True
  with assms(1) show ?thesis
    by (simp add: wfvd_miss0 nanos_def)
next
  case False
  let ?dl = "clock u + nanos (max 0 (max_age wait u))"
  have "\<not> is_set ev (clear ev u)" by simp
  moreover from assms(2) have "\<forall>(t, oc) \<in> set (pending u). t \<le> ?dl \<longrightarrow> notifies oc \<noteq> ev"
    by (auto simp: arrives_def)
  ultimately have "fst (parked ev ?dl (clear ev u) (pending u)) = False \<and>
      clock (snd (parked ev ?dl (clear ev u) (pending u))) = ?dl"
    by (rule parked_silent)
  with assms(1) False show ?thesis
    by (simp add: wfvd_miss)
qed

lemma resolve_flag:
  "wait_for_valid_data data ev age wait (u\<lparr>events := (events u)(ev \<mapsto> flag)\<rparr>) =
   wait_for_valid_data data ev age wait u"
  by (simp add: wait_for_valid_data_def clear_def now_def)

lemma resolve_success:
  assumes "\<not> cache_valid data age u" and "fst (wait_for_valid_data data ev age wait u)"
  shows "arrives ev (clock u + nanos (max 0 (max_age wait u))) (pending u) \<and>
         length (pending (snd (wait_for_valid_data data ev age wait u))) < length (pending u)"
proof -
  from assms resolve_fails [of data age u ev wait]
  have 1: "arrives ev (clock u + nanos (max 0 (max_age wait u))) (pending u)"
    by blast
  from assms have "max_age wait u \<noteq> 0"
    by (auto simp: wfvd_miss0)
  with assms(1) have "wait_for_valid_data data ev age wait u =
      parked ev (clock u + nanos (max 0 (max_age wait u))) (clear ev u) (pending u)"
    by (rule wfvd_miss)
  with assms(2) parked_pending_less [of ev "clock u + nanos (max 0 (max_age wait u))" "clear ev u" "pending u"]
  have "length (pending (snd (wait_for_valid_data data ev age wait u))) < length (pending u)"
    by simp
  with 1 show ?thesis by simp
qed

subsection \<open>A device for the examples\<close>

text \<open>
  An object populated with the operating state, the joint and cartesian setpoints,
  the measured cartesian pose, the jacobian and \<open>move_jp\<close>, with the default
  expected interval of 0.02 s.
\<close>

lemmas add_defs = add_operating_state_def add_setpoint_js_def add_setpoint_cp_def add_measured_js_def
  add_measured_cp_def add_measured_cv_def add_measured_cf_def add_jacobian_def add_move_jp_def
  create_subscription_def create_publisher_def init_def

definition arm :: utils where
  "arm = snd (add_move_jp [] (snd (add_jacobian [] (snd (add_measured_cp []
           (snd (add_setpoint_cp [] (snd (add_setpoint_js []
             (snd (add_operating_state [] (init {} ''arm'' ''/arm'' 0.02 None))))))))))))"

lemma arm_simps:
  "events arm = [OperatingStateEvent \<mapsto> False, SetpointJsEvent \<mapsto> False,
     SetpointCpEvent \<mapsto> False, MeasuredCpEvent \<mapsto> False, JacobianEvent \<mapsto> False]"
  "operating_state_data arm = Some OperatingState"
  "setpoint_js_data arm = Some JointState"
  "setpoint_cp_data arm = Some PoseStamped"
  "measured_cp_data arm = Some PoseStamped"
  "jacobian_data arm = Some Float64MultiArray"
  "measured_js_data arm = None" "measured_cv_data arm = None" "measured_cf_data arm = None"
  "state_command_publisher arm = Some (Publisher 1 ''state_command'')"
  "move_jp_publisher arm = Some (Publisher 6 ''move_jp'')"
  "subscribers arm = [Subscription 0 ''operating_state'', Subscription 2 ''setpoint_js'',
     Subscription 3 ''setpoint_cp'', Subscription 4 ''measured_cp'', Subscription 5 ''jacobian'']"
  "publishers arm = [Publisher 1 ''state_command'', Publisher 6 ''move_jp'']"
  "node_subscriptions arm = {Subscription 5 ''jacobian'', Subscription 4 ''measured_cp'',
     Subscription 3 ''setpoint_cp'', Subscription 2 ''setpoint_js'', Subscription 0 ''operating_state''}"
  "node_publishers arm = {Publisher 6 ''move_jp'', Publisher 1 ''state_command''}"
  "attributes arm = []" "published arm = []" "clock arm = 0" "ok arm" "pending arm = []"
  "latency arm = 0" "expected_interval arm = 0.02" "node_namespace arm = ''/arm''"
  by (simp_all add: arm_def add_defs Let_def eval_nat_numeral)

text \<open>
  The device at 5 s, before any sample; a sample of the joint setpoint stamped
  5.01 s is due at 5.01 s.
\<close>

definition sample_js :: joint_state where
  "sample_js = \<lparr>header_stamp = \<lparr>sec = 5, nanosec = 10000000\<rparr>,
                 position = [1, 2], velocity = [0, 0], effort = [0, 0]\<rparr>"

definition bench :: utils where
  "bench = arm\<lparr>clock := 5000000000, pending := [(5010000000, Setpoint_js_cb sample_js)]\<rparr>"

subsection \<open>Teardown\<close>

text \<open>What \<open>remove_all\<close> leaves: the node without the handles of the two lists.\<close>

definition released :: "utils \<Rightarrow> utils" where
  "released u = u\<lparr>node_subscriptions := node_subscriptions u - set (subscribers u),
                  node_publishers := node_publishers u - set (publishers u)\<rparr>"

lemma destroy_subscriptions:
  "fold (\<lambda>sub v. snd (destroy_subscription sub v)) subs u =
     u\<lparr>node_subscriptions := node_subscriptions u - set subs\<rparr>"
proof (induction subs arbitrary: u)
  case Nil
  then show ?case by simp
next
  case (Cons sub subs)
  have "snd (destroy_subscription sub u) = u\<lparr>node_subscriptions := node_subscriptions u - {sub}\<rparr>"
    by (simp add: destroy_subscription_def)
  moreover have "node_subscriptions u - {sub} - set subs = node_subscriptions u - set (sub # subs)"
    by auto
  ultimately show ?case
    by (simp add: Cons.IH)
qed

lemma destroy_publishers:
  "fold (\<lambda>pub v. snd (destroy_publisher pub v)) pubs u =
     u\<lparr>node_publishers := node_publishers u - set pubs\<rparr>"
proof (induction pubs arbitrary: u)
  case Nil
  then show ?case by simp
next
  case (Cons pub pubs)
  have "snd (destroy_publisher pub u) = u\<lparr>node_publishers := node_publishers u - {pub}\<rparr>"
    by (simp add: destroy_publisher_def)
  moreover have "node_publishers u - {pub} - set pubs = node_publishers u - set (pub # pubs)"
    by auto
  ultimately show ?case
    by (simp add: Cons.IH)
qed

lemma remove_all_released:
  "attributes u = [] \<Longrightarrow> remove_all u = (Inr (), released u)"
  by (simp add: remove_all_def destroy_subscriptions destroy_publishers released_def Let_def)

lemma released_twice: "released (released u) = released u"
  by (simp add: released_def)

lemma attributes_kept:
  "attributes (init class_instance name namespace interval instance_given) = []"
  "attributes (snd (add_operating_state ns u)) = attributes u"
  "attributes (snd (add_setpoint_js ns u)) = attributes u"
  "attributes (snd (add_setpoint_cp ns u)) = attributes u"
  "attributes (snd (add_measured_js ns u)) = attributes u"
  "attributes (snd (add_measured_cp ns u)) = attributes u"
  "attributes (snd (add_measured_cv ns u)) = attributes u"
  "attributes (snd (add_measured_cf ns u)) = attributes u"
  "attributes (snd (add_jacobian ns u)) = attributes u"
  "attributes (snd (add_move_jp ns u)) = attributes u"
  "attributes (occur oc u) = attributes u"
  by (cases oc; simp add: add_defs cb_defs Let_def)+

subsection \<open>The bounded waits\<close>

lemma in_time: "seconds (t - c) \<le> timeout \<Longrightarrow> t \<le> c + nanos (max 0 timeout)"
proof -
  assume "seconds (t - c) \<le> timeout"
  then have "real_of_int (t - c) \<le> timeout * 1000000000"
    by (simp add: seconds_def)
  also have "\<dots> \<le> max 0 timeout * 1000000000"
    by simp
  also have "\<dots> \<le> real_of_int (nanos (max 0 timeout))"
    by (simp add: nanos_def)
  finally show ?thesis by linarith
qed


lemma seconds_mono: "a \<le> b \<Longrightarrow> seconds a \<le> seconds b"
  by (simp add: seconds_def)








text \<open>\<open>wait_for_busy\<close> reaches its wait: the immediate check does not accept the record.\<close>

definition blocks :: "bool \<Rightarrow> time option \<Rightarrow> utils \<Rightarrow> bool" where
  "blocks expected_busy start_time u =
     (case start_time of
        None \<Rightarrow> True
      | Some st \<Rightarrow>
          st \<le> clock u \<or>
          (case operating_state_data u of
             Some d \<Rightarrow> \<not> (from_msg (header_stamp d) > st \<and> msg_is_busy d = expected_busy)
           | None \<Rightarrow> False))"






text \<open>
  Once \<open>wait_for_busy\<close> waits, the first record with the expected flag ends the wait
  with success; the stamp of the record plays no part.
\<close>

lemma wfb_match:
  assumes "events u OperatingStateEvent \<noteq> None" and "ok u"
    and "pending u = (t, Operating_state_cb m) # rest" and "clock u \<le> t"
    and "seconds (t - clock u) \<le> timeout" and "blocks expected_busy start_time u"
    and "msg_is_busy m = expected_busy"
  shows "wait_for_busy expected_busy start_time timeout u =
           (Inr True, operating_state_cb m ((clear OperatingStateEvent u)\<lparr>clock := t, pending := rest\<rparr>))"
proof -
  from assms(4,5) have "0 \<le> timeout"
    using seconds_mono [of 0 "t - clock u"] by (simp add: seconds_def)
  moreover from assms(5) have "t \<le> clock u + nanos (max 0 timeout)"
    by (rule in_time)
  moreover from assms(6) have
    "\<not> ((case start_time of None \<Rightarrow> now u | Some t \<Rightarrow> t) > now u \<and> operating_state_data u = None)"
    "\<not> ((case start_time of None \<Rightarrow> now u | Some t \<Rightarrow> t) > now u \<and>
        (case operating_state_data u of
           Some d \<Rightarrow> from_msg (header_stamp d) > (case start_time of None \<Rightarrow> now u | Some t \<Rightarrow> t) \<and>
                     msg_is_busy d = expected_busy
         | None \<Rightarrow> False))"
    by (auto simp: blocks_def now_def split: option.splits)
  ultimately show ?thesis
    using assms(1-5,7)
    apply (subst wait_for_busy.simps)
    apply (simp del: wait_for_busy.simps
        add: event_wait_def is_set_def operating_state_cb_def set_event_def clear_def
          Let_def max_def)
    apply blast
    done
qed

subsection \<open>Scenarios\<close>



text \<open>
  The device at 5 s after a setpoint pose at (1, 2, 3) and a measured pose at
  (7, 8, 9) were delivered, both stamped 5 s.
\<close>

definition setpoint_pose :: pose_stamped where
  "setpoint_pose = \<lparr>header_stamp = \<lparr>sec = 5, nanosec = 0\<rparr>,
                    pose_of = Pose (Point 1 2 3) (QuaternionMsg 0 0 0 1)\<rparr>"

definition measured_pose :: pose_stamped where
  "measured_pose = \<lparr>header_stamp = \<lparr>sec = 5, nanosec = 0\<rparr>,
                    pose_of = Pose (Point 7 8 9) (QuaternionMsg 0 0 0 1)\<rparr>"

definition tracking :: utils where
  "tracking = measured_cp_cb measured_pose (setpoint_cp_cb setpoint_pose (arm\<lparr>clock := 5000000000\<rparr>))"

text \<open>Records of an enabled and of a disabled device.\<close>

definition enabled_record :: operating_state_msg where
  "enabled_record = \<lparr>header_stamp = \<lparr>sec = 4, nanosec = 0\<rparr>, state = ''ENABLED'',
                      msg_is_homed = True, msg_is_busy = False\<rparr>"

definition disabled_record :: operating_state_msg where
  "disabled_record = \<lparr>header_stamp = \<lparr>sec = 4, nanosec = 0\<rparr>, state = ''DISABLED'',
                       msg_is_homed = True, msg_is_busy = False\<rparr>"






section \<open>The claims\<close>



text \<open>
  C2.  \<open>measured_cp\<close> is to return the pose of the latest message of the measured
  pose channel.  The code converts the pose held by \<open>__setpoint_cp_data\<close> instead:
  with a setpoint at (1, 2, 3) and a measured pose at (7, 8, 9), both fresh, it
  returns the frame at (1, 2, 3), with the stamp of the measured message when
  \<open>extra\<close> is set; on an object that never registered \<open>setpoint_cp\<close> it raises
  AttributeError.
\<close>

theorem measured_cp_converts_setpoint:
  "measured_cp_data tracking = Some measured_pose \<and>
   FrameFromPoseMsg (pose_of measured_pose) = Frame (Quaternion 0 0 0 1) (Vector 7 8 9) \<and>
   fst (measured_cp None None False tracking) = Inr (KDLFrame (Frame (Quaternion 0 0 0 1) (Vector 1 2 3))) \<and>
   fst (measured_cp None None True tracking) =
     Inr (PyList [KDLFrame (Frame (Quaternion 0 0 0 1) (Vector 1 2 3)), Float 5]) \<and>
   fst (measured_cp None None False
     (measured_cp_cb measured_pose
        ((snd (add_measured_cp [] (init {} ''arm'' ''/arm'' 0.02 None)))\<lparr>clock := 5000000000\<rparr>))) =
     Inl AttributeError"
  by (simp add: tracking_def measured_cp_def measured_cp_cb_def setpoint_cp_cb_def set_event_def
      arm_simps measured_pose_def setpoint_pose_def wait_for_valid_data_def clear_def now_def
      from_msg_def seconds_def StampToSeconds_def add_defs Let_def)





text \<open>
  C5.  Teardown is idempotent.  \<open>remove_all\<close> removes every handle of its two lists
  from the node and raises nothing; a second \<open>remove_all\<close>, or the finalizer after
  it, finds no handle to remove and leaves the state as it is.  The list
  \<open>__attributes\<close> is empty in every state the methods produce (nothing appends to
  it), which is the hypothesis.
\<close>

theorem teardown_idempotent:
  assumes "attributes u = []"
  shows "remove_all u = (Inr (), released u) \<and>
         remove_all (released u) = (Inr (), released u) \<and>
         del (released u) = (Inr (), released u) \<and>
         set (subscribers u) \<inter> node_subscriptions (released u) = {} \<and>
         set (publishers u) \<inter> node_publishers (released u) = {}"
proof -
  from assms have "attributes (released u) = []"
    by (simp add: released_def)
  then have "remove_all (released u) = (Inr (), released u)"
    by (simp add: remove_all_released released_twice)
  moreover have "set (subscribers u) \<inter> node_subscriptions (released u) = {}"
    "set (publishers u) \<inter> node_publishers (released u) = {}"
    by (auto simp: released_def)
  ultimately show ?thesis
    using assms by (simp add: remove_all_released del_def)
qed

theorem teardown_idempotent_witness:
  "fst (remove_all arm) = Inr () \<and>
   node_subscriptions (snd (remove_all arm)) = {} \<and>
   node_publishers (snd (remove_all arm)) = {} \<and>
   remove_all (snd (remove_all arm)) = (Inr (), snd (remove_all arm)) \<and>
   del (snd (remove_all arm)) = (Inr (), snd (remove_all arm))"
proof -
  have a: "attributes arm = []"
    by (simp add: arm_simps)
  have r: "node_subscriptions (released arm) = {}" "node_publishers (released arm) = {}"
    by (simp_all add: released_def arm_simps)
  from teardown_idempotent [OF a] r show ?thesis
    by simp
qed

text \<open>
  C6.  Queries before the first sample.  Before any delivery every data attribute
  holds the message its constructor made, stamped zero.  \<open>operating_state()\<close> has no
  freshness check and returns the empty state token of that message;
  \<open>jacobian()\<close> raises IndexError on its empty layout.  An accessor with a freshness
  check raises DataUnavailable when the age it accepts is zero or below the clock
  reading and the traffic holds no notification of its event by the deadline.
\<close>

theorem before_first_sample:
  "(operating_state_data u = Some OperatingState \<longrightarrow> operating_state False u = Inr (Str [])) \<and>
   (jacobian_data u = Some Float64MultiArray \<longrightarrow> fst (jacobian u) = Inl IndexError) \<and>
   (\<forall>(ev, stamp_of, q) \<in> set freshness_accessors.
      stamp_of u = Some Time0 \<and> events u ev \<noteq> None \<and>
      (max_age age u = 0 \<or> max_age age u < seconds (clock u)) \<and>
      \<not> arrives ev (clock u + nanos (max 0 (max_age wait u))) (pending u) \<longrightarrow>
        unavailable (fst (q age wait extra u)))"
proof (intro conjI impI ballI)
  assume "operating_state_data u = Some OperatingState"
  then show "operating_state False u = Inr (Str [])"
    by (simp add: operating_state_def OperatingState_def)
next
  assume "jacobian_data u = Some Float64MultiArray"
  then show "fst (jacobian u) = Inl IndexError"
    by (simp add: jacobian_def Float64MultiArray_def)
next
  fix x assume x: "x \<in> set freshness_accessors"
  obtain ev stamp_of q where t: "x = (ev, stamp_of, q)" by (cases x)
  show "case x of (ev, stamp_of, q) \<Rightarrow>
      stamp_of u = Some Time0 \<and> events u ev \<noteq> None \<and>
      (max_age age u = 0 \<or> max_age age u < seconds (clock u)) \<and>
      \<not> arrives ev (clock u + nanos (max 0 (max_age wait u))) (pending u) \<longrightarrow>
        unavailable (fst (q age wait extra u))"
    unfolding t prod.case
  proof
    assume a: "stamp_of u = Some Time0 \<and> events u ev \<noteq> None \<and>
      (max_age age u = 0 \<or> max_age age u < seconds (clock u)) \<and>
      \<not> arrives ev (clock u + nanos (max 0 (max_age wait u))) (pending u)"
    then have "\<not> cache_valid \<lparr>header_stamp = Time0\<rparr> age u"
      by (auto simp: cache_valid_def from_msg_def Time0_def)
    with a have "\<not> fst (resolve Time0 ev age wait u)"
      unfolding resolve_def using resolve_fails by blast
    with accessor_resolves [of ev stamp_of q u Time0 age wait extra] x a
    show "unavailable (fst (q age wait extra u))"
      by (simp add: t)
  qed
qed

theorem before_first_sample_counterexample:
  "operating_state_data arm = Some OperatingState \<and> pending arm = [] \<and>
   operating_state False arm = Inr (Str []) \<and> \<not> unavailable (operating_state False arm)"
  by (simp add: arm_simps operating_state_def OperatingState_def unavailable_def)

theorem before_first_sample_witness:
  "operating_state False (arm\<lparr>clock := 5000000000\<rparr>) = Inr (Str []) \<and>
   fst (jacobian (arm\<lparr>clock := 5000000000\<rparr>)) = Inl IndexError \<and>
   unavailable (fst (setpoint_jp None None False (arm\<lparr>clock := 5000000000\<rparr>)))"
proof -
  let ?u = "arm\<lparr>clock := 5000000000\<rparr>"
  have mem: "(SetpointJsEvent, (\<lambda>u. map_option header_stamp (setpoint_js_data u)), setpoint_jp)
      \<in> set freshness_accessors"
    by (simp add: freshness_accessors_def)
  have pre: "map_option header_stamp (setpoint_js_data ?u) = Some Time0 \<and>
      events ?u SetpointJsEvent \<noteq> None \<and>
      (max_age None ?u = 0 \<or> max_age None ?u < seconds (clock ?u)) \<and>
      \<not> arrives SetpointJsEvent (clock ?u + nanos (max 0 (max_age None ?u))) (pending ?u)"
    by (simp add: arm_simps JointState_def max_age_def seconds_def arrives_def)
  note inst = before_first_sample [of ?u None None False]
  from inst have 1: "operating_state False ?u = Inr (Str [])"
    by (simp add: arm_simps)
  from inst have 2: "fst (jacobian ?u) = Inl IndexError"
    by (simp add: arm_simps)
  from inst have "\<forall>(ev, stamp_of, q) \<in> set freshness_accessors.
      stamp_of ?u = Some Time0 \<and> events ?u ev \<noteq> None \<and>
      (max_age None ?u = 0 \<or> max_age None ?u < seconds (clock ?u)) \<and>
      \<not> arrives ev (clock ?u + nanos (max 0 (max_age None ?u))) (pending ?u) \<longrightarrow>
        unavailable (fst (q None None False ?u))"
    by blast
  from bspec [OF this mem] pre
  have 3: "unavailable (fst (setpoint_jp None None False ?u))"
    by auto
  from 1 2 3 show ?thesis by simp
qed

text \<open>
  C7.  A second registration of a capability fails with the RuntimeWarning
  \<open>... already exists\<close> (DuplicateCapability) and returns the state it was given,
  so that the subscriber, the data and the bound accessors of the first
  registration are as they were.
\<close>

theorem duplicate_registration:
  "(add_setpoint_js ns u = (Inr (), u') \<longrightarrow>
      add_setpoint_js ns' u' = (Inl (RuntimeWarning ''setpoint_js already exists''), u') \<and>
      DuplicateCapability (RuntimeWarning ''setpoint_js already exists'')) \<and>
   (add_operating_state ns u = (Inr (), u') \<longrightarrow>
      add_operating_state ns' u' = (Inl (RuntimeWarning ''operating_state already exists''), u')) \<and>
   (add_setpoint_cp ns u = (Inr (), u') \<longrightarrow>
      add_setpoint_cp ns' u' = (Inl (RuntimeWarning ''setpoint_cp already exists''), u')) \<and>
   (add_measured_js ns u = (Inr (), u') \<longrightarrow>
      add_measured_js ns' u' = (Inl (RuntimeWarning ''measured_js already exists''), u')) \<and>
   (add_measured_cp ns u = (Inr (), u') \<longrightarrow>
      add_measured_cp ns' u' = (Inl (RuntimeWarning ''measured_cp already exists''), u')) \<and>
   (add_measured_cv ns u = (Inr (), u') \<longrightarrow>
      add_measured_cv ns' u' = (Inl (RuntimeWarning ''measured_cv already exists''), u')) \<and>
   (add_measured_cf ns u = (Inr (), u') \<longrightarrow>
      add_measured_cf ns' u' = (Inl (RuntimeWarning ''measured_cf already exists''), u')) \<and>
   (add_jacobian ns u = (Inr (), u') \<longrightarrow>
      add_jacobian ns' u' = (Inl (RuntimeWarning ''jacobian already exists''), u')) \<and>
   (add_move_jp ns u = (Inr (), u') \<longrightarrow>
      add_move_jp ns' u' = (Inl (RuntimeWarning ''move_jp already exists''), u'))"
proof -
  have 1: "add_setpoint_js ns u = (Inr (), u') \<longrightarrow>
      add_setpoint_js ns' u' = (Inl (RuntimeWarning ''setpoint_js already exists''), u') \<and>
      DuplicateCapability (RuntimeWarning ''setpoint_js already exists'')"
    by (auto simp: add_setpoint_js_def create_subscription_def Let_def split: if_splits)
  have 2: "add_operating_state ns u = (Inr (), u') \<longrightarrow>
      add_operating_state ns' u' = (Inl (RuntimeWarning ''operating_state already exists''), u')"
    by (auto simp: add_operating_state_def create_subscription_def create_publisher_def Let_def
        split: if_splits)
  have 3: "add_setpoint_cp ns u = (Inr (), u') \<longrightarrow>
      add_setpoint_cp ns' u' = (Inl (RuntimeWarning ''setpoint_cp already exists''), u')"
    by (auto simp: add_setpoint_cp_def create_subscription_def Let_def split: if_splits)
  have 4: "add_measured_js ns u = (Inr (), u') \<longrightarrow>
      add_measured_js ns' u' = (Inl (RuntimeWarning ''measured_js already exists''), u')"
    by (auto simp: add_measured_js_def create_subscription_def Let_def split: if_splits)
  have 5: "add_measured_cp ns u = (Inr (), u') \<longrightarrow>
      add_measured_cp ns' u' = (Inl (RuntimeWarning ''measured_cp already exists''), u')"
    by (auto simp: add_measured_cp_def create_subscription_def Let_def split: if_splits)
  have 6: "add_measured_cv ns u = (Inr (), u') \<longrightarrow>
      add_measured_cv ns' u' = (Inl (RuntimeWarning ''measured_cv already exists''), u')"
    by (auto simp: add_measured_cv_def create_subscription_def Let_def split: if_splits)
  have 7: "add_measured_cf ns u = (Inr (), u') \<longrightarrow>
      add_measured_cf ns' u' = (Inl (RuntimeWarning ''measured_cf already exists''), u')"
    by (auto simp: add_measured_cf_def create_subscription_def Let_def split: if_splits)
  have 8: "add_jacobian ns u = (Inr (), u') \<longrightarrow>
      add_jacobian ns' u' = (Inl (RuntimeWarning ''jacobian already exists''), u')"
    by (auto simp: add_jacobian_def create_subscription_def Let_def split: if_splits)
  have 9: "add_move_jp ns u = (Inr (), u') \<longrightarrow>
      add_move_jp ns' u' = (Inl (RuntimeWarning ''move_jp already exists''), u')"
    by (auto simp: add_move_jp_def create_publisher_def Let_def split: if_splits)
  show ?thesis
    by (intro conjI) (rule 1, rule 2, rule 3, rule 4, rule 5, rule 6, rule 7, rule 8, rule 9)
qed

theorem duplicate_registration_witness:
  "fst (add_setpoint_js [] (init {} ''arm'' ''/arm'' 0.02 None)) = Inr () \<and>
   add_setpoint_js [] (snd (add_setpoint_js [] (init {} ''arm'' ''/arm'' 0.02 None))) =
     (Inl (RuntimeWarning ''setpoint_js already exists''),
      snd (add_setpoint_js [] (init {} ''arm'' ''/arm'' 0.02 None))) \<and>
   fst (add_operating_state ''left/'' (snd (add_operating_state []
       (init {} ''arm'' ''/arm'' 0.02 None)))) = Inl (RuntimeWarning ''operating_state already exists'')"
proof -
  let ?u = "init {} ''arm'' ''/arm'' 0.02 None"
  have a1: "fst (add_setpoint_js [] ?u) = Inr ()"
    by (simp add: add_defs Let_def)
  then have a: "add_setpoint_js [] ?u = (Inr (), snd (add_setpoint_js [] ?u))"
    by (simp add: prod_eq_iff)
  have "fst (add_operating_state [] ?u) = Inr ()"
    by (simp add: add_defs Let_def)
  then have b: "add_operating_state [] ?u = (Inr (), snd (add_operating_state [] ?u))"
    by (simp add: prod_eq_iff)
  from duplicate_registration [of "[]" ?u "snd (add_setpoint_js [] ?u)" "[]"] a
  have 1: "add_setpoint_js [] (snd (add_setpoint_js [] ?u)) =
      (Inl (RuntimeWarning ''setpoint_js already exists''), snd (add_setpoint_js [] ?u))"
    by blast
  from duplicate_registration [of "[]" ?u "snd (add_operating_state [] ?u)" "''left/''"] b
  have 2: "add_operating_state ''left/'' (snd (add_operating_state [] ?u)) =
      (Inl (RuntimeWarning ''operating_state already exists''), snd (add_operating_state [] ?u))"
    by blast
  from a1 1 2 show ?thesis by simp
qed

text \<open>
  C8.  For every timeout, \<open>enable\<close> on a record that is already ENABLED, and
  \<open>disable\<close> on one that is already DISABLED, publishes the command token and
  returns true; the state it returns differs from the one it was given by the
  cleared flag and the published token only, so the clock did not advance and no
  traffic was consumed.
\<close>

theorem enable_disable_short_circuit:
  assumes "operating_state_data u = Some d" and "events u OperatingStateEvent \<noteq> None"
    and "state_command_publisher u = Some pub"
  shows "(state d = ''ENABLED'' \<longrightarrow>
            enable timeout u = (Inr True, (clear OperatingStateEvent u)
               \<lparr>published := published u @ [(pub, StringStamped ''enable'')]\<rparr>)) \<and>
         (state d = ''DISABLED'' \<longrightarrow>
            disable timeout u = (Inr True, (clear OperatingStateEvent u)
               \<lparr>published := published u @ [(pub, StringStamped ''disable'')]\<rparr>))"
  using assms
  by (auto simp: enable_def disable_def is_enabled_def is_disabled_def state_command_def publish_def
      clear_def)

theorem enable_disable_short_circuit_witness:
  "fst (enable 10 (operating_state_cb enabled_record (arm\<lparr>clock := 5000000000\<rparr>))) = Inr True \<and>
   published (snd (enable 10 (operating_state_cb enabled_record (arm\<lparr>clock := 5000000000\<rparr>)))) =
     [(Publisher 1 ''state_command'', StringStamped ''enable'')] \<and>
   clock (snd (enable 10 (operating_state_cb enabled_record (arm\<lparr>clock := 5000000000\<rparr>)))) = 5000000000 \<and>
   fst (disable (-1) (operating_state_cb disabled_record (arm\<lparr>clock := 5000000000\<rparr>))) = Inr True \<and>
   published (snd (disable (-1) (operating_state_cb disabled_record (arm\<lparr>clock := 5000000000\<rparr>)))) =
     [(Publisher 1 ''state_command'', StringStamped ''disable'')]"
proof -
  let ?e = "operating_state_cb enabled_record (arm\<lparr>clock := 5000000000\<rparr>)"
  let ?d = "operating_state_cb disabled_record (arm\<lparr>clock := 5000000000\<rparr>)"
  have e: "operating_state_data ?e = Some enabled_record" "events ?e OperatingStateEvent \<noteq> None"
    "state_command_publisher ?e = Some (Publisher 1 ''state_command'')" "published ?e = []"
    "clock ?e = 5000000000" "state enabled_record = ''ENABLED''"
    by (simp_all add: operating_state_cb_def set_event_def arm_simps enabled_record_def)
  have d: "operating_state_data ?d = Some disabled_record" "events ?d OperatingStateEvent \<noteq> None"
    "state_command_publisher ?d = Some (Publisher 1 ''state_command'')" "published ?d = []"
    "state disabled_record = ''DISABLED''"
    by (simp_all add: operating_state_cb_def set_event_def arm_simps disabled_record_def)
  from enable_disable_short_circuit [OF e(1-3), of 10] e(4-6)
  have 1: "enable 10 ?e = (Inr True, (clear OperatingStateEvent ?e)
               \<lparr>published := [(Publisher 1 ''state_command'', StringStamped ''enable'')]\<rparr>)"
    by simp
  from enable_disable_short_circuit [OF d(1-3), of "-1"] d(4-5)
  have 2: "disable (-1) ?d = (Inr True, (clear OperatingStateEvent ?d)
               \<lparr>published := [(Publisher 1 ''state_command'', StringStamped ''disable'')]\<rparr>)"
    by simp
  show ?thesis
    by (simp add: 1 2 e)
qed




text \<open>
  C10.  A freshness query clears the flag of its event on entry: its result is the
  same whatever the flag was.  When the cached message is rejected and the query
  succeeds, the traffic held a notification of the event by the deadline and the
  query consumed it.  Every accessor with a freshness check inherits this.
\<close>

theorem stale_notification_ignored:
  "wait_for_valid_data data ev age wait (u\<lparr>events := (events u)(ev \<mapsto> flag)\<rparr>) =
     wait_for_valid_data data ev age wait u \<and>
   (\<not> cache_valid data age u \<and> fst (wait_for_valid_data data ev age wait u) \<longrightarrow>
      arrives ev (clock u + nanos (max 0 (max_age wait u))) (pending u) \<and>
      length (pending (snd (wait_for_valid_data data ev age wait u))) < length (pending u)) \<and>
   (\<forall>(ev, stamp_of, q) \<in> set freshness_accessors.
      stamp_of u \<noteq> None \<and> events u ev \<noteq> None \<longrightarrow>
        q age wait extra (u\<lparr>events := (events u)(ev \<mapsto> flag)\<rparr>) = q age wait extra u)"
proof -
  have 1: "wait_for_valid_data data ev age wait (u\<lparr>events := (events u)(ev \<mapsto> flag)\<rparr>) =
     wait_for_valid_data data ev age wait u"
    by (rule resolve_flag)
  have 2: "\<not> cache_valid data age u \<and> fst (wait_for_valid_data data ev age wait u) \<longrightarrow>
      arrives ev (clock u + nanos (max 0 (max_age wait u))) (pending u) \<and>
      length (pending (snd (wait_for_valid_data data ev age wait u))) < length (pending u)"
    using resolve_success by blast
  have 3: "\<forall>(ev, stamp_of, q) \<in> set freshness_accessors.
      stamp_of u \<noteq> None \<and> events u ev \<noteq> None \<longrightarrow>
        q age wait extra (u\<lparr>events := (events u)(ev \<mapsto> flag)\<rparr>) = q age wait extra u"
    unfolding freshness_accessors_def
    by (auto simp: accessor_defs resolve_flag)
  show ?thesis by (rule conjI [OF 1 conjI [OF 2 3]])
qed

theorem stale_notification_ignored_witness:
  "wait_for_valid_data JointState SetpointJsEvent (Some 0) (Some 0)
     (bench\<lparr>events := (events bench)(SetpointJsEvent \<mapsto> True)\<rparr>) = (False, clear SetpointJsEvent bench) \<and>
   fst (wait_for_valid_data JointState SetpointJsEvent None None bench) \<and>
   pending (snd (wait_for_valid_data JointState SetpointJsEvent None None bench)) = [] \<and>
   setpoint_jp None None False (bench\<lparr>events := (events bench)(SetpointJsEvent \<mapsto> True)\<rparr>) =
     setpoint_jp None None False bench"
proof -
  have run: "wait_for_valid_data JointState SetpointJsEvent None None bench =
      (True, setpoint_js_cb sample_js
         ((clear SetpointJsEvent bench)\<lparr>clock := 5010000000, pending := []\<rparr>))"
    by (simp add: wait_for_valid_data_def event_wait_def bench_def arm_simps JointState_def Time0_def
        from_msg_def seconds_def now_def nanos_def is_set_def clear_def Let_def setpoint_js_cb_def
        set_event_def)
  have miss: "\<not> cache_valid JointState None bench"
    by (simp add: cache_valid_def max_age_def bench_def arm_simps JointState_def Time0_def
        from_msg_def seconds_def)
  have attrs: "map_option header_stamp (setpoint_js_data bench) \<noteq> None \<and>
      events bench SetpointJsEvent \<noteq> None"
    by (simp add: bench_def arm_simps)
  have mem: "(SetpointJsEvent, (\<lambda>u. map_option header_stamp (setpoint_js_data u)), setpoint_jp)
      \<in> set freshness_accessors"
    by (simp add: freshness_accessors_def)
  note inst = stale_notification_ignored [of JointState SetpointJsEvent _ _ bench True]
  from inst [of "Some 0" "Some 0"]
  have 1: "wait_for_valid_data JointState SetpointJsEvent (Some 0) (Some 0)
     (bench\<lparr>events := (events bench)(SetpointJsEvent \<mapsto> True)\<rparr>) = (False, clear SetpointJsEvent bench)"
    by (simp add: wfvd_none max_age_def)
  from inst [of None None] miss run
  have 2: "length (pending (snd (wait_for_valid_data JointState SetpointJsEvent None None bench)))
      < length (pending bench)"
    by simp
  then have 3: "pending (snd (wait_for_valid_data JointState SetpointJsEvent None None bench)) = []"
    by (simp add: bench_def)
  from inst [of None None False]
  have "\<forall>(ev, stamp_of, q) \<in> set freshness_accessors.
      stamp_of bench \<noteq> None \<and> events bench ev \<noteq> None \<longrightarrow>
        q None None False (bench\<lparr>events := (events bench)(ev \<mapsto> True)\<rparr>) = q None None False bench"
    by blast
  from bspec [OF this mem] attrs
  have 4: "setpoint_jp None None False (bench\<lparr>events := (events bench)(SetpointJsEvent \<mapsto> True)\<rparr>) =
     setpoint_jp None None False bench"
    by auto
  from 1 run 3 4 show ?thesis by simp
qed

end
